theory Spec2Isabelle
  imports Main "HOL-Library.Word"
begin

unbundle bit_operations_syntax

section \<open>Machine types and memory\<close>

text \<open>
  The header works on \<open>u32\<close> instruction words. \<open>GENMASK\<close> yields an
  \<open>unsigned long\<close>, which is 64 bits wide on the rv64 kernel the header is generated for;
  C's usual arithmetic conversions widen the \<open>u32\<close> operand to it and the result is
  cut back to 32 bits where it is returned or stored.
\<close>

type_synonym u32 = "32 word"
type_synonym ulong = "64 word"

text \<open>
  The insert and update functions write through a \<open>u32 *\<close>. Their callers hand them
  \<open>&insn\<close>, a pointer to a \<open>u32\<close> object; for such pointers memory is a map from the
  pointer to the word it designates, distinct pointers designating distinct objects. The
  pointer type stays a parameter.
\<close>

type_synonym 'p mem = "'p \<Rightarrow> u32"

section \<open>Macros\<close>

text \<open>
  Modelled from the spec: \<open>GENMASK(h, l)\<close> comes from \<open>linux/bits.h\<close>, which the header
  includes and which is not among the sources. It is the kernel's macro
  \<open>((~0UL) - (1UL << l) + 1) & (~0UL >> (BITS_PER_LONG - 1 - h))\<close>, the word with bits
  \<open>l\<close> to \<open>h\<close> set, so that \<open>GENMASK(11, 0)\<close> is the 12-bit mask and \<open>GENMASK(4, 0)\<close> the
  5-bit mask of the field widths. The header only uses it with \<open>l \<le> h \<le> 31\<close>, where
  the shift count \<open>64 - 1 - h\<close> is in range.
\<close>

definition GENMASK :: "nat \<Rightarrow> nat \<Rightarrow> ulong" where
  "GENMASK h l = (NOT 0 - push_bit l 1 + 1) AND drop_bit (64 - 1 - h) (NOT 0)"

text \<open>\<open>#define RV_X(X, s, mask)  (((X) >> (s)) & (mask))\<close>, used with a \<open>u32\<close> for
  \<open>X\<close> and a \<open>GENMASK\<close> for the mask: the shift is done on 32 bits, the conjunction on
  the widened value.\<close>

definition RV_X :: "u32 \<Rightarrow> nat \<Rightarrow> ulong \<Rightarrow> ulong" where
  "RV_X X s msk = ucast (drop_bit s X) AND msk"

section \<open>The imm12 field, bits 31 to 20\<close>

definition riscv_extract_imm12 :: "u32 \<Rightarrow> u32" where
  "riscv_extract_imm12 insn = ucast (push_bit 0 (RV_X insn 20 (GENMASK 11 0)))"

definition riscv_insert_imm12 :: "'p mem \<Rightarrow> 'p \<Rightarrow> u32 \<Rightarrow> 'p mem" where
  "riscv_insert_imm12 m insn val =
     m(insn := ucast (ucast (m insn) OR push_bit 20 (RV_X val 0 (GENMASK 11 0))))"

text \<open>
  The source writes the mask of the update functions as \<open>GENMASK((31, 20))\<close>. A macro of
  two parameters takes no parenthesised pair, so the only reading under which the line
  is C at all is \<open>GENMASK(31, 20)\<close>, and that is the one modelled, here and for the
  other two fields.
\<close>

definition riscv_update_imm12 :: "'p mem \<Rightarrow> 'p \<Rightarrow> u32 \<Rightarrow> 'p mem" where
  "riscv_update_imm12 m insn val =
     (let m1 = m(insn := ucast (ucast (m insn) AND NOT (GENMASK 31 20)))
      in riscv_insert_imm12 m1 insn val)"

section \<open>The rd field, bits 11 to 7\<close>

definition riscv_extract_rd :: "u32 \<Rightarrow> u32" where
  "riscv_extract_rd insn = ucast (push_bit 0 (RV_X insn 7 (GENMASK 4 0)))"

definition riscv_insert_rd :: "'p mem \<Rightarrow> 'p \<Rightarrow> u32 \<Rightarrow> 'p mem" where
  "riscv_insert_rd m insn val =
     m(insn := ucast (ucast (m insn) OR push_bit 7 (RV_X val 0 (GENMASK 4 0))))"

definition riscv_update_rd :: "'p mem \<Rightarrow> 'p \<Rightarrow> u32 \<Rightarrow> 'p mem" where
  "riscv_update_rd m insn val =
     (let m1 = m(insn := ucast (ucast (m insn) AND NOT (GENMASK 11 7)))
      in riscv_insert_rd m1 insn val)"

section \<open>The rs1 field, bits 19 to 15\<close>

definition riscv_extract_rs1 :: "u32 \<Rightarrow> u32" where
  "riscv_extract_rs1 insn = ucast (push_bit 0 (RV_X insn 15 (GENMASK 4 0)))"

definition riscv_insert_rs1 :: "'p mem \<Rightarrow> 'p \<Rightarrow> u32 \<Rightarrow> 'p mem" where
  "riscv_insert_rs1 m insn val =
     m(insn := ucast (ucast (m insn) OR push_bit 15 (RV_X val 0 (GENMASK 4 0))))"

definition riscv_update_rs1 :: "'p mem \<Rightarrow> 'p \<Rightarrow> u32 \<Rightarrow> 'p mem" where
  "riscv_update_rs1 m insn val =
     (let m1 = m(insn := ucast (ucast (m insn) AND NOT (GENMASK 19 15)))
      in riscv_insert_rs1 m1 insn val)"

section \<open>The addi instruction\<close>

definition riscv_is_addi :: "u32 \<Rightarrow> bool" where
  "riscv_is_addi insn = (insn AND 0x707f = 0x13)"

text \<open>
  \<open>riscv_insn_addi\<close> hands the value of its local \<open>insn\<close> to the insert functions, not
  its address: the argument is the integer \<open>0x13\<close> converted to a \<open>u32 *\<close>. That pointer
  designates no \<open>u32\<close> object, so these calls are modelled on the memory of the machine:
  bytes at 64-bit addresses, each mapped or not, a word being four bytes in little-endian
  order. An access to the word at \<open>p\<close> faults when one of its bytes is not mapped; a
  misaligned access, as at \<open>0x13\<close>, is carried out on the bytes it covers.
\<close>

type_synonym u8 = "8 word"
type_synonym addr = "64 word"
type_synonym bytes = "addr \<Rightarrow> u8 option"

datatype fault = Fault

definition load_u32 :: "bytes \<Rightarrow> addr \<Rightarrow> u32 option" where
  "load_u32 b p =
     (case (b p, b (p + 1), b (p + 2), b (p + 3)) of
        (Some b0, Some b1, Some b2, Some b3) \<Rightarrow>
          Some (ucast b0 OR push_bit 8 (ucast b1) OR push_bit 16 (ucast b2)
                OR push_bit 24 (ucast b3))
      | _ \<Rightarrow> None)"

definition store_u32 :: "bytes \<Rightarrow> addr \<Rightarrow> u32 \<Rightarrow> bytes" where
  "store_u32 b p w =
     b(p \<mapsto> ucast w, p + 1 \<mapsto> ucast (drop_bit 8 w), p + 2 \<mapsto> ucast (drop_bit 16 w),
       p + 3 \<mapsto> ucast (drop_bit 24 w))"

text \<open>
  The call \<open>f(p, v)\<close> of an insert function \<open>f\<close> with an address \<open>p\<close>. The statement
  \<open>*insn |= \<dots>\<close> of \<open>f\<close> loads the word at \<open>p\<close>, which faults or yields \<open>w\<close>, and
  stores the new word back to the same bytes; \<open>f\<close> is run on the word \<open>w\<close> and its result
  for \<open>p\<close> is what is stored.
\<close>

definition call_at ::
  "(addr mem \<Rightarrow> addr \<Rightarrow> u32 \<Rightarrow> addr mem) \<Rightarrow> bytes \<Rightarrow> addr \<Rightarrow> u32 \<Rightarrow> fault + bytes" where
  "call_at f b p v =
     (case load_u32 b p of
        None \<Rightarrow> Inl Fault
      | Some w \<Rightarrow> Inr (store_u32 b p (f (\<lambda>a. w) p v p)))"

text \<open>
  The conversion of the integer to a pointer is implementation-defined and is the
  parameter \<open>to_ptr\<close>. The local \<open>insn\<close>, whose address is never taken, is not in memory;
  when the three calls have returned it is returned as initialised.
\<close>

definition riscv_insn_addi ::
  "(u32 \<Rightarrow> addr) \<Rightarrow> bytes \<Rightarrow> u32 \<Rightarrow> u32 \<Rightarrow> u32 \<Rightarrow> fault + bytes \<times> u32" where
  "riscv_insn_addi to_ptr b rd rs1 imm12 =
     (let insn = 0x13 in
      case call_at riscv_insert_rd b (to_ptr insn) rd of
        Inl e \<Rightarrow> Inl e
      | Inr b1 \<Rightarrow>
     (case call_at riscv_insert_rs1 b1 (to_ptr insn) rs1 of
        Inl e \<Rightarrow> Inl e
      | Inr b2 \<Rightarrow>
     (case call_at riscv_insert_imm12 b2 (to_ptr insn) imm12 of
        Inl e \<Rightarrow> Inl e
      | Inr b3 \<Rightarrow> Inr (b3, insn))))"

section \<open>The masks\<close>

lemma GENMASK_low: "(NOT 0 - push_bit l 1 + 1 :: ulong) = NOT (mask l)"
  by (simp add: push_bit_eq_mult flip: minus_exp_eq_not_mask)

lemma GENMASK_high: "h < 64 \<Longrightarrow> drop_bit (64 - 1 - h) (NOT 0 :: ulong) = mask (Suc h)"
  by (rule bit_eqI) (auto simp add: bit_simps)

text \<open>The macro sets exactly the bits from \<open>l\<close> to \<open>h\<close>.\<close>

lemma GENMASK_bits: "h < 64 \<Longrightarrow> bit (GENMASK h l) n \<longleftrightarrow> l \<le> n \<and> n \<le> h"
  unfolding GENMASK_def GENMASK_low
  by (auto simp add: GENMASK_high bit_simps)

lemma GENMASK_11_0: "GENMASK 11 0 = mask 12"
  by code_simp

lemma GENMASK_4_0: "GENMASK 4 0 = mask 5"
  by code_simp

lemma GENMASK_31_20: "GENMASK 31 20 = push_bit 20 (mask 12)"
  by code_simp

lemma GENMASK_11_7: "GENMASK 11 7 = push_bit 7 (mask 5)"
  by code_simp

lemma GENMASK_19_15: "GENMASK 19 15 = push_bit 15 (mask 5)"
  by code_simp

lemma and_0xFFF: "(v :: u32) AND 0xFFF = take_bit 12 v"
  by (simp add: take_bit_eq_mask mask_eq_exp_minus_1)

lemma and_0x1F: "(v :: u32) AND 0x1F = take_bit 5 v"
  by (simp add: take_bit_eq_mask mask_eq_exp_minus_1)

section \<open>Each function on 32 bits\<close>

text \<open>
  The widening to \<open>unsigned long\<close> and the cut back to 32 bits cancel: every function of
  the header is a shift and a mask on the 32-bit word.
\<close>

lemma extract_imm12_eq: "riscv_extract_imm12 insn = take_bit 12 (drop_bit 20 insn)"
  unfolding riscv_extract_imm12_def RV_X_def GENMASK_11_0
  by (rule bit_eqI) (auto simp add: bit_simps)

lemma extract_rd_eq: "riscv_extract_rd insn = take_bit 5 (drop_bit 7 insn)"
  unfolding riscv_extract_rd_def RV_X_def GENMASK_4_0
  by (rule bit_eqI) (auto simp add: bit_simps)

lemma extract_rs1_eq: "riscv_extract_rs1 insn = take_bit 5 (drop_bit 15 insn)"
  unfolding riscv_extract_rs1_def RV_X_def GENMASK_4_0
  by (rule bit_eqI) (auto simp add: bit_simps)

lemma insert_word_imm12:
  "(ucast ((ucast (w :: u32) :: ulong) OR push_bit 20 (RV_X v 0 (GENMASK 11 0))) :: u32)
     = w OR push_bit 20 (take_bit 12 v)"
  unfolding RV_X_def GENMASK_11_0
  by (rule bit_eqI) (auto simp add: bit_simps)

lemma insert_word_rd:
  "(ucast ((ucast (w :: u32) :: ulong) OR push_bit 7 (RV_X v 0 (GENMASK 4 0))) :: u32)
     = w OR push_bit 7 (take_bit 5 v)"
  unfolding RV_X_def GENMASK_4_0
  by (rule bit_eqI) (auto simp add: bit_simps)

lemma insert_word_rs1:
  "(ucast ((ucast (w :: u32) :: ulong) OR push_bit 15 (RV_X v 0 (GENMASK 4 0))) :: u32)
     = w OR push_bit 15 (take_bit 5 v)"
  unfolding RV_X_def GENMASK_4_0
  by (rule bit_eqI) (auto simp add: bit_simps)

lemma clear_word_imm12:
  "(ucast ((ucast (w :: u32) :: ulong) AND NOT (GENMASK 31 20)) :: u32)
     = w AND NOT (push_bit 20 (mask 12))"
  unfolding GENMASK_31_20
  by (rule bit_eqI) (auto simp add: bit_simps)

lemma clear_word_rd:
  "(ucast ((ucast (w :: u32) :: ulong) AND NOT (GENMASK 11 7)) :: u32)
     = w AND NOT (push_bit 7 (mask 5))"
  unfolding GENMASK_11_7
  by (rule bit_eqI) (auto simp add: bit_simps)

lemma clear_word_rs1:
  "(ucast ((ucast (w :: u32) :: ulong) AND NOT (GENMASK 19 15)) :: u32)
     = w AND NOT (push_bit 15 (mask 5))"
  unfolding GENMASK_19_15
  by (rule bit_eqI) (auto simp add: bit_simps)

lemma insert_imm12_eq:
  "riscv_insert_imm12 m p v = m(p := m p OR push_bit 20 (take_bit 12 v))"
  by (simp add: riscv_insert_imm12_def insert_word_imm12)

lemma insert_rd_eq:
  "riscv_insert_rd m p v = m(p := m p OR push_bit 7 (take_bit 5 v))"
  by (simp add: riscv_insert_rd_def insert_word_rd)

lemma insert_rs1_eq:
  "riscv_insert_rs1 m p v = m(p := m p OR push_bit 15 (take_bit 5 v))"
  by (simp add: riscv_insert_rs1_def insert_word_rs1)

lemma update_imm12_eq:
  "riscv_update_imm12 m p v =
     m(p := (m p AND NOT (push_bit 20 (mask 12))) OR push_bit 20 (take_bit 12 v))"
  by (simp add: riscv_update_imm12_def insert_imm12_eq clear_word_imm12)

lemma update_rd_eq:
  "riscv_update_rd m p v =
     m(p := (m p AND NOT (push_bit 7 (mask 5))) OR push_bit 7 (take_bit 5 v))"
  by (simp add: riscv_update_rd_def insert_rd_eq clear_word_rd)

lemma update_rs1_eq:
  "riscv_update_rs1 m p v =
     m(p := (m p AND NOT (push_bit 15 (mask 5))) OR push_bit 15 (take_bit 5 v))"
  by (simp add: riscv_update_rs1_def insert_rs1_eq clear_word_rs1)

text \<open>
  What \<open>riscv_insn_addi\<close> does: it faults at the first insert when the byte at the
  converted \<open>0x13\<close> is not mapped, and a word it returns is \<open>0x13\<close>.
\<close>

lemma call_at_unmapped: "b p = None \<Longrightarrow> call_at f b p v = Inl Fault"
  by (simp add: call_at_def load_u32_def)

lemma call_at_mapped:
  "load_u32 b p = Some w \<Longrightarrow> call_at f b p v = Inr (store_u32 b p (f (\<lambda>a. w) p v p))"
  by (simp add: call_at_def)

lemma insn_addi_faults:
  "b (to_ptr 0x13) = None \<Longrightarrow> riscv_insn_addi to_ptr b rd rs1 imm12 = Inl Fault"
  by (simp add: riscv_insn_addi_def call_at_unmapped)

lemma insn_addi_returns:
  "riscv_insn_addi to_ptr b rd rs1 imm12 = Inr (b', r) \<Longrightarrow> r = 0x13"
  by (auto simp add: riscv_insn_addi_def Let_def split: sum.splits)

text \<open>
  Two runs of an insert or update function with the same value, on pointers (equal or
  not, in the same memory or not) whose instruction words are equal, end with equal
  instruction words.
\<close>

lemma insert_update_two_runs:
  assumes "m p = m' p'"
  shows "riscv_insert_imm12 m p v p = riscv_insert_imm12 m' p' v p'
    \<and> riscv_update_imm12 m p v p = riscv_update_imm12 m' p' v p'
    \<and> riscv_insert_rd m p v p = riscv_insert_rd m' p' v p'
    \<and> riscv_update_rd m p v p = riscv_update_rd m' p' v p'
    \<and> riscv_insert_rs1 m p v p = riscv_insert_rs1 m' p' v p'
    \<and> riscv_update_rs1 m p v p = riscv_update_rs1 m' p' v p'"
  using assms
  by (simp add: riscv_insert_imm12_def riscv_update_imm12_def riscv_insert_rd_def
      riscv_update_rd_def riscv_insert_rs1_def riscv_update_rs1_def)

section \<open>Fields of a 32-bit word\<close>

lemma field_ins_imm12:
  "take_bit 12 (drop_bit 20 (w OR push_bit 20 (take_bit 12 v)))
     = take_bit 12 (drop_bit 20 w) OR take_bit 12 (v :: u32)"
  by (rule bit_eqI) (auto simp add: bit_simps)

lemma field_ins_rd:
  "take_bit 5 (drop_bit 7 (w OR push_bit 7 (take_bit 5 v)))
     = take_bit 5 (drop_bit 7 w) OR take_bit 5 (v :: u32)"
  by (rule bit_eqI) (auto simp add: bit_simps)

lemma field_ins_rs1:
  "take_bit 5 (drop_bit 15 (w OR push_bit 15 (take_bit 5 v)))
     = take_bit 5 (drop_bit 15 w) OR take_bit 5 (v :: u32)"
  by (rule bit_eqI) (auto simp add: bit_simps)

lemma field_clr_imm12:
  "take_bit 12 (drop_bit 20 (w AND NOT (push_bit 20 (mask 12)))) = (0 :: u32)"
  by (rule bit_eqI) (auto simp add: bit_simps)

lemma field_clr_rd:
  "take_bit 5 (drop_bit 7 (w AND NOT (push_bit 7 (mask 5)))) = (0 :: u32)"
  by (rule bit_eqI) (auto simp add: bit_simps)

lemma field_clr_rs1:
  "take_bit 5 (drop_bit 15 (w AND NOT (push_bit 15 (mask 5)))) = (0 :: u32)"
  by (rule bit_eqI) (auto simp add: bit_simps)

lemma unat_take_bit_less: "unat (take_bit n (w :: u32)) < 2 ^ n"
  by (simp add: unsigned_take_bit_eq)

lemma upd_word_imm12:
  "(((w AND NOT (push_bit 20 (mask 12))) OR push_bit 20 (take_bit 12 v1))
      AND NOT (push_bit 20 (mask 12))) OR push_bit 20 (take_bit 12 v2)
   = (w AND NOT (push_bit 20 (mask 12))) OR push_bit 20 (take_bit 12 (v2 :: u32))"
  by (rule bit_eqI) (auto simp add: bit_simps)

lemma upd_word_rd:
  "(((w AND NOT (push_bit 7 (mask 5))) OR push_bit 7 (take_bit 5 v1))
      AND NOT (push_bit 7 (mask 5))) OR push_bit 7 (take_bit 5 v2)
   = (w AND NOT (push_bit 7 (mask 5))) OR push_bit 7 (take_bit 5 (v2 :: u32))"
  by (rule bit_eqI) (auto simp add: bit_simps)

lemma upd_word_rs1:
  "(((w AND NOT (push_bit 15 (mask 5))) OR push_bit 15 (take_bit 5 v1))
      AND NOT (push_bit 15 (mask 5))) OR push_bit 15 (take_bit 5 v2)
   = (w AND NOT (push_bit 15 (mask 5))) OR push_bit 15 (take_bit 5 (v2 :: u32))"
  by (rule bit_eqI) (auto simp add: bit_simps)

lemma keep_ins_imm12:
  "n < 20 \<or> 31 < n \<Longrightarrow> bit (w OR push_bit 20 (take_bit 12 v)) n = bit (w :: u32) n"
  by (auto simp add: bit_simps dest: bit_imp_le_length)

lemma keep_upd_imm12:
  "n < 20 \<or> 31 < n \<Longrightarrow>
     bit ((w AND NOT (push_bit 20 (mask 12))) OR push_bit 20 (take_bit 12 v)) n = bit (w :: u32) n"
  by (auto simp add: bit_simps dest: bit_imp_le_length)

lemma keep_ins_rd:
  "n < 7 \<or> 11 < n \<Longrightarrow> bit (w OR push_bit 7 (take_bit 5 v)) n = bit (w :: u32) n"
  by (auto simp add: bit_simps dest: bit_imp_le_length)

lemma keep_upd_rd:
  "n < 7 \<or> 11 < n \<Longrightarrow>
     bit ((w AND NOT (push_bit 7 (mask 5))) OR push_bit 7 (take_bit 5 v)) n = bit (w :: u32) n"
  by (auto simp add: bit_simps dest: bit_imp_le_length)

lemma keep_ins_rs1:
  "n < 15 \<or> 19 < n \<Longrightarrow> bit (w OR push_bit 15 (take_bit 5 v)) n = bit (w :: u32) n"
  by (auto simp add: bit_simps dest: bit_imp_le_length)

lemma keep_upd_rs1:
  "n < 15 \<or> 19 < n \<Longrightarrow>
     bit ((w AND NOT (push_bit 15 (mask 5))) OR push_bit 15 (take_bit 5 v)) n = bit (w :: u32) n"
  by (auto simp add: bit_simps dest: bit_imp_le_length)

subsection \<open>Opcode and funct3\<close>

lemma mask_0x707f: "(0x707f :: u32) = mask 7 OR push_bit 12 (mask 3)"
  by code_simp

lemma and_0x707f:
  "(w :: u32) AND 0x707f = take_bit 7 w OR push_bit 12 (take_bit 3 (drop_bit 12 w))"
  unfolding mask_0x707f
  by (rule bit_eqI) (auto simp add: bit_simps)

lemma opcode_of_parts:
  "take_bit 7 (take_bit 7 w OR push_bit 12 (take_bit 3 (drop_bit 12 w))) = take_bit 7 (w :: u32)"
  by (rule bit_eqI) (auto simp add: bit_simps)

lemma funct3_of_parts:
  "take_bit 3 (drop_bit 12 (take_bit 7 w OR push_bit 12 (take_bit 3 (drop_bit 12 w))))
     = take_bit 3 (drop_bit 12 (w :: u32))"
  by (rule bit_eqI) (auto simp add: bit_simps)

lemma is_addi_fields:
  "((w :: u32) AND 0x707f = 0x13) \<longleftrightarrow> (take_bit 7 w = 0x13 \<and> take_bit 3 (drop_bit 12 w) = 0)"
proof
  assume eq: "w AND 0x707f = 0x13"
  have "take_bit 7 w = take_bit 7 (w AND 0x707f)"
    unfolding and_0x707f opcode_of_parts ..
  also have "\<dots> = 0x13"
    unfolding eq by simp
  finally have opcode: "take_bit 7 w = 0x13" .
  have "take_bit 3 (drop_bit 12 w) = take_bit 3 (drop_bit 12 (w AND 0x707f))"
    unfolding and_0x707f funct3_of_parts ..
  also have "\<dots> = 0"
    unfolding eq by simp
  finally show "take_bit 7 w = 0x13 \<and> take_bit 3 (drop_bit 12 w) = 0"
    using opcode by simp
next
  assume "take_bit 7 w = 0x13 \<and> take_bit 3 (drop_bit 12 w) = 0"
  then show "w AND 0x707f = 0x13"
    unfolding and_0x707f by simp
qed

lemma and_merge: "((a AND k) OR (b AND NOT k)) AND k = a AND (k :: u32)"
  by (rule bit_eqI) (auto simp add: bit_simps)

section \<open>The encoder\<close>

text \<open>
  C1. The claim: for every \<open>rd\<close>, \<open>rs1\<close> and \<open>imm12\<close> the instruction returned by
  \<open>riscv_insn_addi\<close> is recognised by \<open>riscv_is_addi\<close>. The code passes \<open>insn\<close> where
  \<open>&insn\<close> is due, so the first insert dereferences the address \<open>0x13\<close>: in a memory whose
  first page is not mapped the call faults, whatever \<open>rd\<close>, \<open>rs1\<close> and \<open>imm12\<close> are, and
  returns no instruction at all.
\<close>

theorem C1_insn_addi_faults:
  "riscv_insn_addi ucast (\<lambda>a. if a < 0x1000 then None else Some 0) rd rs1 imm12 = Inl Fault"
  by (simp add: insn_addi_faults)

text \<open>
  C2. The claim: the fields of the instruction returned by \<open>riscv_insn_addi\<close> decode back
  to \<open>rd & 0x1F\<close>, \<open>rs1 & 0x1F\<close> and \<open>imm12 & 0xFFF\<close>. The code passes \<open>insn\<close> where
  \<open>&insn\<close> is due, so the three inserts never reach the returned word. With
  \<open>rd = rs1 = imm12 = 1\<close> and a memory mapped everywhere and filled with zeros, the word
  returned is \<open>0x13\<close> and all three of its fields decode to 0, not 1; the fields land in
  the bytes at the address \<open>0x13\<close> instead, which changes the aligned words at \<open>0x10\<close>
  and \<open>0x14\<close>. With the first page not mapped nothing is returned.
\<close>

theorem C2_insn_addi_fields_lost:
  "(case riscv_insn_addi ucast (\<lambda>a. Some 0) 1 1 1 of
      Inl e \<Rightarrow> False
    | Inr (b, insn) \<Rightarrow>
        insn = 0x13
        \<and> riscv_extract_rd insn = 0 \<and> riscv_extract_rs1 insn = 0
        \<and> riscv_extract_imm12 insn = 0
        \<and> load_u32 b 0x13 = Some 0x00108080
        \<and> load_u32 b 0x10 = Some 0x80000000 \<and> load_u32 b 0x14 = Some 0x00001080)
   \<and> (1 :: u32) AND 0x1F = 1 \<and> (1 :: u32) AND 0xFFF = 1
   \<and> riscv_insn_addi ucast (\<lambda>a. if a < 0x1000 then None else Some 0) 1 1 1 = Inl Fault"
proof (intro conjI)
  show "case riscv_insn_addi ucast (\<lambda>a. Some 0) 1 1 1 of
      Inl e \<Rightarrow> False
    | Inr (b, insn) \<Rightarrow>
        insn = 0x13
        \<and> riscv_extract_rd insn = 0 \<and> riscv_extract_rs1 insn = 0
        \<and> riscv_extract_imm12 insn = 0
        \<and> load_u32 b 0x13 = Some 0x00108080
        \<and> load_u32 b 0x10 = Some 0x80000000 \<and> load_u32 b 0x14 = Some 0x00001080"
    by code_simp
  show "(1 :: u32) AND 0x1F = 1" and "(1 :: u32) AND 0xFFF = 1"
    by simp_all
  show "riscv_insn_addi ucast (\<lambda>a. if a < 0x1000 then None else Some 0) 1 1 1 = Inl Fault"
    by (simp add: insn_addi_faults)
qed

section \<open>Insert, update and extract\<close>

text \<open>
  C3. For each of the fields imm12, rd and rs1: when the instruction word is zero, inserting
  \<open>v\<close> and then extracting the field gives \<open>v\<close> reduced to the field width, \<open>v & 0xFFF\<close>
  for imm12 and \<open>v & 0x1F\<close> for rd and rs1.
\<close>

theorem C3_insert_into_zero:
  "riscv_extract_imm12 (riscv_insert_imm12 (m(p := 0)) p v p) = v AND 0xFFF
   \<and> riscv_extract_rd (riscv_insert_rd (m(p := 0)) p v p) = v AND 0x1F
   \<and> riscv_extract_rs1 (riscv_insert_rs1 (m(p := 0)) p v p) = v AND 0x1F"
proof (intro conjI)
  show "riscv_extract_imm12 (riscv_insert_imm12 (m(p := 0)) p v p) = v AND 0xFFF"
    unfolding insert_imm12_eq extract_imm12_eq and_0xFFF fun_upd_same field_ins_imm12
    by simp
  show "riscv_extract_rd (riscv_insert_rd (m(p := 0)) p v p) = v AND 0x1F"
    unfolding insert_rd_eq extract_rd_eq and_0x1F fun_upd_same field_ins_rd
    by simp
  show "riscv_extract_rs1 (riscv_insert_rs1 (m(p := 0)) p v p) = v AND 0x1F"
    unfolding insert_rs1_eq extract_rs1_eq and_0x1F fun_upd_same field_ins_rs1
    by simp
qed

text \<open>
  C4. For each of the fields imm12, rd and rs1, every instruction word and every \<open>v\<close>:
  after the update function has run, extracting the field gives \<open>v\<close> reduced to the field
  width, whatever the field held before.
\<close>

theorem C4_update_then_extract:
  "riscv_extract_imm12 (riscv_update_imm12 m p v p) = v AND 0xFFF
   \<and> riscv_extract_rd (riscv_update_rd m p v p) = v AND 0x1F
   \<and> riscv_extract_rs1 (riscv_update_rs1 m p v p) = v AND 0x1F"
proof (intro conjI)
  show "riscv_extract_imm12 (riscv_update_imm12 m p v p) = v AND 0xFFF"
    unfolding update_imm12_eq extract_imm12_eq and_0xFFF fun_upd_same field_ins_imm12
      field_clr_imm12
    by simp
  show "riscv_extract_rd (riscv_update_rd m p v p) = v AND 0x1F"
    unfolding update_rd_eq extract_rd_eq and_0x1F fun_upd_same field_ins_rd field_clr_rd
    by simp
  show "riscv_extract_rs1 (riscv_update_rs1 m p v p) = v AND 0x1F"
    unfolding update_rs1_eq extract_rs1_eq and_0x1F fun_upd_same field_ins_rs1 field_clr_rs1
    by simp
qed

text \<open>
  C5. For every 32-bit instruction word the extractors stay within their field width:
  the imm12 value is below \<open>2^12\<close>, the rd and rs1 values are below \<open>2^5\<close>. The extractors
  are total functions into \<open>u32\<close>, with no error result.
\<close>

theorem C5_extract_bounds:
  "unat (riscv_extract_imm12 insn) < 2 ^ 12
   \<and> unat (riscv_extract_rd insn) < 2 ^ 5
   \<and> unat (riscv_extract_rs1 insn) < 2 ^ 5"
  unfolding extract_imm12_eq extract_rd_eq extract_rs1_eq
  by (intro conjI unat_take_bit_less)

text \<open>
  C10. The insert functions OR the value into the field: after an insert the field is the
  old field OR-ed with \<open>v\<close> reduced to the field width, for imm12, rd and rs1. So an insert
  into a field that is not zero need not leave \<open>v\<close> reduced to the field width there:
  inserting 1 into a field whose top bit is set leaves both bits set.
\<close>

theorem C10_insert_ors:
  "riscv_extract_imm12 (riscv_insert_imm12 m p v p) = riscv_extract_imm12 (m p) OR (v AND 0xFFF)
   \<and> riscv_extract_rd (riscv_insert_rd m p v p) = riscv_extract_rd (m p) OR (v AND 0x1F)
   \<and> riscv_extract_rs1 (riscv_insert_rs1 m p v p) = riscv_extract_rs1 (m p) OR (v AND 0x1F)
   \<and> riscv_extract_imm12 (riscv_insert_imm12 (m(p := 0x80000000)) p 1 p) \<noteq> 1 AND 0xFFF
   \<and> riscv_extract_rd (riscv_insert_rd (m(p := 0x800)) p 1 p) \<noteq> 1 AND 0x1F
   \<and> riscv_extract_rs1 (riscv_insert_rs1 (m(p := 0x80000)) p 1 p) \<noteq> 1 AND 0x1F"
proof (intro conjI)
  show "riscv_extract_imm12 (riscv_insert_imm12 m p v p)
          = riscv_extract_imm12 (m p) OR (v AND 0xFFF)"
    unfolding insert_imm12_eq extract_imm12_eq and_0xFFF fun_upd_same
    by (rule field_ins_imm12)
  show "riscv_extract_rd (riscv_insert_rd m p v p) = riscv_extract_rd (m p) OR (v AND 0x1F)"
    unfolding insert_rd_eq extract_rd_eq and_0x1F fun_upd_same
    by (rule field_ins_rd)
  show "riscv_extract_rs1 (riscv_insert_rs1 m p v p) = riscv_extract_rs1 (m p) OR (v AND 0x1F)"
    unfolding insert_rs1_eq extract_rs1_eq and_0x1F fun_upd_same
    by (rule field_ins_rs1)
  show "riscv_extract_imm12 (riscv_insert_imm12 (m(p := 0x80000000)) p 1 p) \<noteq> 1 AND 0xFFF"
    by (simp add: insert_imm12_eq extract_imm12_eq)
  show "riscv_extract_rd (riscv_insert_rd (m(p := 0x800)) p 1 p) \<noteq> 1 AND 0x1F"
    by (simp add: insert_rd_eq extract_rd_eq)
  show "riscv_extract_rs1 (riscv_insert_rs1 (m(p := 0x80000)) p 1 p) \<noteq> 1 AND 0x1F"
    by (simp add: insert_rs1_eq extract_rs1_eq)
qed

text \<open>
  C7. For each field, update is last-write-wins: updating with \<open>v1\<close> and then with
  \<open>v2\<close> leaves memory as updating with \<open>v2\<close> alone does; in particular updating
  twice with one value is updating once.
\<close>

theorem C7_update_last_write_wins:
  "riscv_update_imm12 (riscv_update_imm12 m p v1) p v2 = riscv_update_imm12 m p v2
   \<and> riscv_update_rd (riscv_update_rd m p v1) p v2 = riscv_update_rd m p v2
   \<and> riscv_update_rs1 (riscv_update_rs1 m p v1) p v2 = riscv_update_rs1 m p v2
   \<and> riscv_update_imm12 (riscv_update_imm12 m p v) p v = riscv_update_imm12 m p v
   \<and> riscv_update_rd (riscv_update_rd m p v) p v = riscv_update_rd m p v
   \<and> riscv_update_rs1 (riscv_update_rs1 m p v) p v = riscv_update_rs1 m p v"
  unfolding update_imm12_eq update_rd_eq update_rs1_eq fun_upd_same fun_upd_upd
    upd_word_imm12 upd_word_rd upd_word_rs1
  by simp

text \<open>
  C9. Each insert and update function changes only the bits of its own field, bits 31 to 20
  for imm12, 11 to 7 for rd and 19 to 15 for rs1: every other bit \<open>n\<close> of the instruction
  word is as before, and so is every other word \<open>q\<close> of memory.
\<close>

theorem C9_frame:
  "(n < 20 \<or> 31 < n \<longrightarrow>
      bit (riscv_insert_imm12 m p v p) n = bit (m p) n
      \<and> bit (riscv_update_imm12 m p v p) n = bit (m p) n)
   \<and> (n < 7 \<or> 11 < n \<longrightarrow>
      bit (riscv_insert_rd m p v p) n = bit (m p) n
      \<and> bit (riscv_update_rd m p v p) n = bit (m p) n)
   \<and> (n < 15 \<or> 19 < n \<longrightarrow>
      bit (riscv_insert_rs1 m p v p) n = bit (m p) n
      \<and> bit (riscv_update_rs1 m p v p) n = bit (m p) n)
   \<and> (q \<noteq> p \<longrightarrow>
      riscv_insert_imm12 m p v q = m q \<and> riscv_update_imm12 m p v q = m q
      \<and> riscv_insert_rd m p v q = m q \<and> riscv_update_rd m p v q = m q
      \<and> riscv_insert_rs1 m p v q = m q \<and> riscv_update_rs1 m p v q = m q)"
proof (intro conjI impI)
  assume n: "n < 20 \<or> 31 < n"
  show "bit (riscv_insert_imm12 m p v p) n = bit (m p) n"
    unfolding insert_imm12_eq fun_upd_same using n by (rule keep_ins_imm12)
  show "bit (riscv_update_imm12 m p v p) n = bit (m p) n"
    unfolding update_imm12_eq fun_upd_same using n by (rule keep_upd_imm12)
next
  assume n: "n < 7 \<or> 11 < n"
  show "bit (riscv_insert_rd m p v p) n = bit (m p) n"
    unfolding insert_rd_eq fun_upd_same using n by (rule keep_ins_rd)
  show "bit (riscv_update_rd m p v p) n = bit (m p) n"
    unfolding update_rd_eq fun_upd_same using n by (rule keep_upd_rd)
next
  assume n: "n < 15 \<or> 19 < n"
  show "bit (riscv_insert_rs1 m p v p) n = bit (m p) n"
    unfolding insert_rs1_eq fun_upd_same using n by (rule keep_ins_rs1)
  show "bit (riscv_update_rs1 m p v p) n = bit (m p) n"
    unfolding update_rs1_eq fun_upd_same using n by (rule keep_upd_rs1)
next
  assume q: "q \<noteq> p"
  show "riscv_insert_imm12 m p v q = m q"
    using q by (simp add: insert_imm12_eq)
  show "riscv_update_imm12 m p v q = m q"
    using q by (simp add: update_imm12_eq)
  show "riscv_insert_rd m p v q = m q"
    using q by (simp add: insert_rd_eq)
  show "riscv_update_rd m p v q = m q"
    using q by (simp add: update_rd_eq)
  show "riscv_insert_rs1 m p v q = m q"
    using q by (simp add: insert_rs1_eq)
  show "riscv_update_rs1 m p v q = m q"
    using q by (simp add: update_rs1_eq)
qed

theorem C9_frame_witness:
  "((4 :: nat) < 20 \<or> 31 < (4 :: nat))
   \<and> bit (riscv_insert_imm12 (\<lambda>a :: nat. 0x13) 0 0xFFFFFFFF 0) (4 :: nat) = bit (0x13 :: u32) (4 :: nat)
   \<and> bit (riscv_update_imm12 (\<lambda>a :: nat. 0x13) 0 0xFFFFFFFF 0) (4 :: nat) = bit (0x13 :: u32) (4 :: nat)
   \<and> bit (riscv_insert_rd (\<lambda>a :: nat. 0x13) 0 0xFFFFFFFF 0) (4 :: nat) = bit (0x13 :: u32) (4 :: nat)
   \<and> bit (riscv_update_rd (\<lambda>a :: nat. 0x13) 0 0xFFFFFFFF 0) (4 :: nat) = bit (0x13 :: u32) (4 :: nat)
   \<and> bit (riscv_insert_rs1 (\<lambda>a :: nat. 0x13) 0 0xFFFFFFFF 0) (4 :: nat) = bit (0x13 :: u32) (4 :: nat)
   \<and> bit (riscv_update_rs1 (\<lambda>a :: nat. 0x13) 0 0xFFFFFFFF 0) (4 :: nat) = bit (0x13 :: u32) (4 :: nat)
   \<and> (1 :: nat) \<noteq> 0
   \<and> riscv_insert_imm12 (\<lambda>a :: nat. 0x13) 0 0xFFFFFFFF 1 = 0x13
   \<and> riscv_update_imm12 (\<lambda>a :: nat. 0x13) 0 0xFFFFFFFF 1 = 0x13
   \<and> riscv_insert_rd (\<lambda>a :: nat. 0x13) 0 0xFFFFFFFF 1 = 0x13
   \<and> riscv_update_rd (\<lambda>a :: nat. 0x13) 0 0xFFFFFFFF 1 = 0x13
   \<and> riscv_insert_rs1 (\<lambda>a :: nat. 0x13) 0 0xFFFFFFFF 1 = 0x13
   \<and> riscv_update_rs1 (\<lambda>a :: nat. 0x13) 0 0xFFFFFFFF 1 = 0x13"
  using C9_frame [of 4 "\<lambda>a :: nat. 0x13" 0 "0xFFFFFFFF" 1]
  by simp

section \<open>The addi predicate\<close>

text \<open>
  C8. \<open>riscv_is_addi\<close> holds exactly when \<open>(insn & 0x707F) == 0x13\<close>, that is when the
  opcode, bits 6 to 0, is \<open>0x13\<close> and funct3, bits 14 to 12, is 0; replacing every other
  bit of the word by the bits of any other word does not change the answer.
\<close>

theorem C8_is_addi:
  "riscv_is_addi insn = (insn AND 0x707F = 0x13)
   \<and> riscv_is_addi insn = (take_bit 7 insn = 0x13 \<and> take_bit 3 (drop_bit 12 insn) = 0)
   \<and> riscv_is_addi ((insn AND 0x707F) OR (other AND NOT 0x707F)) = riscv_is_addi insn"
  unfolding riscv_is_addi_def and_merge
  using is_addi_fields [of insn] by simp

section \<open>Two runs\<close>

text \<open>
  C6. The claim: every function of the header is stateless and determined by its
  arguments. \<open>riscv_insn_addi\<close> is not: it passes \<open>insn\<close> where \<open>&insn\<close> is due, so it
  reads and writes the memory at the address \<open>0x13\<close>, which is no argument. Three runs
  with \<open>rd = 1\<close>, \<open>rs1 = 2\<close>, \<open>imm12 = 3\<close>: with the first page not mapped the call
  faults; with memory mapped and filled with \<open>0x00\<close> it returns and leaves \<open>0x00310080\<close>
  at \<open>0x13\<close>; with memory mapped and filled with \<open>0xFF\<close> it returns and leaves
  \<open>0xFFFFFFFF\<close> there.
\<close>

theorem C6_insn_addi_depends_on_memory:
  "riscv_insn_addi ucast (\<lambda>a. if a < 0x1000 then None else Some 0) 1 2 3 = Inl Fault
   \<and> (case riscv_insn_addi ucast (\<lambda>a. Some 0) 1 2 3 of
        Inl e \<Rightarrow> False
      | Inr (b, insn) \<Rightarrow> insn = 0x13 \<and> load_u32 b 0x13 = Some 0x00310080)
   \<and> (case riscv_insn_addi ucast (\<lambda>a. Some 0xFF) 1 2 3 of
        Inl e \<Rightarrow> False
      | Inr (b, insn) \<Rightarrow> insn = 0x13 \<and> load_u32 b 0x13 = Some 0xFFFFFFFF)"
proof (intro conjI)
  show "riscv_insn_addi ucast (\<lambda>a. if a < 0x1000 then None else Some 0) 1 2 3 = Inl Fault"
    by (simp add: insn_addi_faults)
  show "case riscv_insn_addi ucast (\<lambda>a. Some 0) 1 2 3 of
        Inl e \<Rightarrow> False
      | Inr (b, insn) \<Rightarrow> insn = 0x13 \<and> load_u32 b 0x13 = Some 0x00310080"
    by code_simp
  show "case riscv_insn_addi ucast (\<lambda>a. Some 0xFF) 1 2 3 of
        Inl e \<Rightarrow> False
      | Inr (b, insn) \<Rightarrow> insn = 0x13 \<and> load_u32 b 0x13 = Some 0xFFFFFFFF"
    by code_simp
qed

end
